theory Spec2Isabelle
  imports Complex_Main "HOL-Library.Word" "HOL-Library.Log_Nat"
begin

section \<open>C++ types, values and exceptions\<close>

text \<open>
  The template arguments a \<^verbatim>\<open>Variant\<close> is instantiated with are drawn from a universe of
  C++ types: three fundamental types, \<^verbatim>\<open>std::string\<close>, pointers, named class types, and
  lvalue references, which arise as the template argument deduced for a forwarding
  reference. \<^verbatim>\<open>typeid\<close> of a reference type is that of the type referred to.
  Qualification by \<^verbatim>\<open>const\<close> or \<^verbatim>\<open>volatile\<close> is left out.
\<close>

datatype cpp_type =
    T_bool
  | T_int
  | T_double
  | T_string
  | T_pointer cpp_type
  | T_class string
  | T_lvalue_reference cpp_type

datatype type_index = TypeIndex cpp_type

fun typeid :: "cpp_type \<Rightarrow> type_index" where
  "typeid (T_lvalue_reference T) = typeid T"
| "typeid T = TypeIndex T"

text \<open>
  \<^verbatim>\<open>std::is_fundamental\<close>, \<^verbatim>\<open>std::is_pointer\<close> and \<^verbatim>\<open>std::is_reference\<close> of the standard
  library.
\<close>

fun is_fundamental :: "cpp_type \<Rightarrow> bool" where
  "is_fundamental T_bool = True"
| "is_fundamental T_int = True"
| "is_fundamental T_double = True"
| "is_fundamental T_string = False"
| "is_fundamental (T_pointer T) = False"
| "is_fundamental (T_class c) = False"
| "is_fundamental (T_lvalue_reference T) = False"

fun is_pointer :: "cpp_type \<Rightarrow> bool" where
  "is_pointer (T_pointer T) = True"
| "is_pointer T = False"

fun is_reference :: "cpp_type \<Rightarrow> bool" where
  "is_reference (T_lvalue_reference T) = True"
| "is_reference T = False"

text \<open>
  A \<^verbatim>\<open>double\<close> is an IEEE 754 binary64 datum: a finite value (a rational; the two
  zeros are identified, as \<^verbatim>\<open>==\<close> does), an infinity or a NaN.
\<close>

datatype double = Finite rat | PlusInfinity | MinusInfinity | NaN

text \<open>
  Rounding of an exact result to binary64 in the default mode (to nearest, ties to even):
  53 significant bits, least exponent -1022 (below it the spacing stays at 2 to the
  power -1074), and an infinity once the rounded magnitude reaches 2 to the power 1024.
\<close>

definition round_to_even :: "rat \<Rightarrow> int" where
  "round_to_even q =
     (let f = \<lfloor>q\<rfloor>; d = q - of_int f
      in if d < 1 / 2 then f else if 1 / 2 < d then f + 1 else if even f then f else f + 1)"

text \<open>For \<open>0 < q\<close>, the exponent \<open>e\<close> with \<open>2 powi e \<le> q < 2 powi (e + 1)\<close>.\<close>

definition floor_log2 :: "rat \<Rightarrow> int" where
  "floor_log2 q =
     (case quotient_of q of (a, b) \<Rightarrow>
        let d = bitlen a - bitlen b
        in if 2 powi d \<le> q then d else d - 1)"

definition round_double :: "rat \<Rightarrow> double" where
  "round_double q =
     (if q = 0 then Finite 0
      else let e = max (floor_log2 \<bar>q\<bar>) (- 1022);
               ulp = 2 powi (e - 52);
               m = round_to_even (q / ulp)
           in if 1023 < e \<or> (e = 1023 \<and> 2 ^ 53 \<le> \<bar>m\<bar>)
              then (if 0 < q then PlusInfinity else MinusInfinity)
              else Finite (of_int m * ulp))"

fun double_sgn :: "double \<Rightarrow> int" where
  "double_sgn (Finite a) = (if 0 < a then 1 else if a < 0 then - 1 else 0)"
| "double_sgn PlusInfinity = 1"
| "double_sgn MinusInfinity = - 1"
| "double_sgn NaN = 0"

text \<open>The operators \<^verbatim>\<open>+\<close> and \<^verbatim>\<open>*\<close> on \<^verbatim>\<open>double\<close>.\<close>

fun double_add :: "double \<Rightarrow> double \<Rightarrow> double" where
  "double_add (Finite a) (Finite b) = round_double (a + b)"
| "double_add NaN y = NaN"
| "double_add x NaN = NaN"
| "double_add PlusInfinity MinusInfinity = NaN"
| "double_add MinusInfinity PlusInfinity = NaN"
| "double_add PlusInfinity y = PlusInfinity"
| "double_add MinusInfinity y = MinusInfinity"
| "double_add x PlusInfinity = PlusInfinity"
| "double_add x MinusInfinity = MinusInfinity"

fun double_mul :: "double \<Rightarrow> double \<Rightarrow> double" where
  "double_mul (Finite a) (Finite b) = round_double (a * b)"
| "double_mul x y =
     (if x = NaN \<or> y = NaN \<or> double_sgn x * double_sgn y = 0 then NaN
      else if 0 < double_sgn x * double_sgn y then PlusInfinity
      else MinusInfinity)"

text \<open>The \<^verbatim>\<open>double\<close> whose value is the integer \<open>i\<close>.\<close>

definition exact_int :: "int \<Rightarrow> double" where
  "exact_int i = Finite (of_int i)"

text \<open>
  Values. A pointer is the address of an object of the given type; a reference is bound
  to the variable of the given type at the given address.
\<close>

datatype cpp_value =
    V_bool bool
  | V_int "32 word"
  | V_double double
  | V_string string
  | V_pointer cpp_type nat
  | V_object string "cpp_value list"
  | V_reference cpp_type nat

fun type_of :: "cpp_value \<Rightarrow> cpp_type" where
  "type_of (V_bool b) = T_bool"
| "type_of (V_int i) = T_int"
| "type_of (V_double d) = T_double"
| "type_of (V_string s) = T_string"
| "type_of (V_pointer T a) = T_pointer T"
| "type_of (V_object c members) = T_class c"
| "type_of (V_reference T a) = T_lvalue_reference T"

text \<open>
  The argument of a call whose parameter is a forwarding reference \<^verbatim>\<open>ValueType&&\<close>: an
  rvalue, given by its value, or an lvalue, the caller's variable at an address with the
  value it holds. For an rvalue of type \<open>U\<close> the template argument deduced is \<open>U\<close>, for
  an lvalue it is \<open>U&\<close>. Forwarded to \<^verbatim>\<open>VariantDerived(const ValueType& val)\<close>, an rvalue
  is copied into \<^verbatim>\<open>_value\<close>; for an lvalue \<^verbatim>\<open>_value\<close> is a reference, bound to the
  caller's variable.
\<close>

datatype argument = Rvalue cpp_value | Lvalue nat cpp_value

fun argument_type :: "argument \<Rightarrow> cpp_type" where
  "argument_type (Rvalue w) = type_of w"
| "argument_type (Lvalue a w) = type_of w"

fun deduced_ValueType :: "argument \<Rightarrow> cpp_type" where
  "deduced_ValueType (Rvalue w) = type_of w"
| "deduced_ValueType (Lvalue a w) = T_lvalue_reference (type_of w)"

fun forwarded :: "argument \<Rightarrow> cpp_value" where
  "forwarded (Rvalue w) = w"
| "forwarded (Lvalue a w) = V_reference (type_of w) a"

text \<open>
  The exceptions the sources throw or catch. Their classes are declared outside the
  sources; \<^verbatim>\<open>InputException\<close> is taken to be a \<^verbatim>\<open>utilities::Exception\<close>, as the handler
  of \<^verbatim>\<open>main\<close> for the error \<^verbatim>\<open>main\<close> throws itself presumes. The constructor
  \<open>Exception\<close> stands for a \<^verbatim>\<open>utilities::Exception\<close> of any other dynamic type, carrying
  its message. Only the two error codes the sources use are listed.
\<close>

datatype InputExceptionErrors = invalidArgument | typeMismatch

datatype exception =
    runtime_error string
  | bad_alloc
  | Exception string
  | InputException InputExceptionErrors string
  | CommandLineParserPrintHelpException string
  | CommandLineParserErrorException "string list"

text \<open>
  What a call does: it returns a value, leaves by an exception, or has no defined
  behaviour (a null or dangling pointer is dereferenced).
\<close>

datatype 'a result = Returns 'a | Throws exception | Undefined

section \<open>Variant (utilities)\<close>

text \<open>
  An object of class \<^verbatim>\<open>VariantDerived<ValueType>\<close>: the template argument is its dynamic
  class (what \<^verbatim>\<open>dynamic_cast\<close> tests), \<^verbatim>\<open>_type\<close> is the member of its base
  \<^verbatim>\<open>VariantBase\<close> and \<^verbatim>\<open>_value\<close> its own member.
\<close>

record VariantDerived =
  ValueType :: cpp_type
  VariantBase_type :: type_index
  VariantDerived_value :: cpp_value

text \<open>
  The free store: a fixed number of cells, each free (\<open>None\<close>) or holding an object.
  \<^verbatim>\<open>new\<close> takes the first free cell; when there is none it yields \<open>None\<close>, and the
  new-expression throws \<^verbatim>\<open>std::bad_alloc\<close>. \<^verbatim>\<open>delete\<close> frees a cell. A
  \<^verbatim>\<open>std::unique_ptr<VariantBase>\<close> is an address or null.
\<close>

type_synonym addr = nat

type_synonym heap = "VariantDerived option list"

type_synonym unique_ptr = "addr option"

fun find_free :: "heap \<Rightarrow> addr option" where
  "find_free [] = None"
| "find_free (None # h) = Some 0"
| "find_free (Some obj # h) = map_option Suc (find_free h)"

definition new_object :: "heap \<Rightarrow> VariantDerived \<Rightarrow> (heap \<times> addr) option" where
  "new_object h obj =
     (case find_free h of
        None \<Rightarrow> None
      | Some a \<Rightarrow> Some (h[a := Some obj], a))"

definition deref :: "heap \<Rightarrow> addr \<Rightarrow> VariantDerived option" where
  "deref h a = (if a < length h then h ! a else None)"

definition delete_object :: "heap \<Rightarrow> unique_ptr \<Rightarrow> heap" where
  "delete_object h p = (case p of None \<Rightarrow> h | Some a \<Rightarrow> h[a := None])"

text \<open>
  \<^verbatim>\<open>VariantDerived(const ValueType& val) : VariantBase(typeid(ValueType)), _value(val)\<close>
\<close>

definition VariantDerived_ctor :: "cpp_type \<Rightarrow> cpp_value \<Rightarrow> VariantDerived" where
  "VariantDerived_ctor T val =
     \<lparr>ValueType = T, VariantBase_type = typeid T, VariantDerived_value = val\<rparr>"

definition VariantDerived_GetValue :: "VariantDerived \<Rightarrow> cpp_value" where
  "VariantDerived_GetValue this = VariantDerived_value this"

text \<open>
  \<^verbatim>\<open>VariantBase::GetValue<ValueType>\<close>: the \<^verbatim>\<open>dynamic_cast\<close> to
  \<^verbatim>\<open>VariantDerived<ValueType>\<close> yields null unless the object is of that class.
\<close>

definition VariantBase_GetValue :: "cpp_type \<Rightarrow> VariantDerived \<Rightarrow> cpp_value result" where
  "VariantBase_GetValue T this =
     (if ValueType this \<noteq> T
      then Throws (InputException typeMismatch ''Variant::GetValue called with wrong type.'')
      else Returns (VariantDerived_GetValue this))"

text \<open>\<^verbatim>\<open>VariantDerived::Clone\<close>, called on the object at address \<open>this\<close>.\<close>

definition Clone :: "heap \<Rightarrow> addr \<Rightarrow> (heap \<times> addr) result" where
  "Clone h this =
     (case deref h this of
        None \<Rightarrow> Undefined
      | Some obj \<Rightarrow>
          (case new_object h (VariantDerived_ctor (ValueType obj) (VariantDerived_value obj)) of
             None \<Rightarrow> Throws bad_alloc
           | Some (h1, ptr) \<Rightarrow> Returns (h1, ptr)))"

definition IsPrimitiveType :: "VariantDerived \<Rightarrow> bool" where
  "IsPrimitiveType this = is_fundamental (ValueType this)"

definition IsSerializable :: "VariantDerived \<Rightarrow> bool" where
  "IsSerializable this = (\<not> IsPrimitiveType this)"

definition IsPointer :: "VariantDerived \<Rightarrow> bool" where
  "IsPointer this = is_pointer (ValueType this)"

text \<open>The class \<^verbatim>\<open>Variant\<close>: a type index and the owning pointer to the held object.\<close>

record Variant =
  Variant_type :: type_index
  Variant_value :: unique_ptr

definition Variant_GetValue :: "cpp_type \<Rightarrow> heap \<Rightarrow> Variant \<Rightarrow> cpp_value result" where
  "Variant_GetValue T h this =
     (if typeid T \<noteq> Variant_type this
      then Throws (runtime_error ''Bad variant access'')
      else (case Variant_value this of
              None \<Rightarrow> Undefined
            | Some a \<Rightarrow>
                (case deref h a of
                   None \<Rightarrow> Undefined
                 | Some obj \<Rightarrow> VariantBase_GetValue T obj)))"

text \<open>
  \<^verbatim>\<open>Variant::operator=\<close> at the template argument \<open>T\<close>, with \<open>val\<close> what the held object's
  \<^verbatim>\<open>_value\<close> is initialised with: the statements in the source's order. The result is the
  store and the variant as the call leaves them, with the exception when it leaves by
  one. Assigning the new \<^verbatim>\<open>unique_ptr\<close> to \<^verbatim>\<open>_value\<close> deletes the object owned before.
\<close>

definition Variant_assign ::
    "cpp_type \<Rightarrow> cpp_value \<Rightarrow> heap \<Rightarrow> Variant \<Rightarrow> heap \<times> Variant \<times> exception option" where
  "Variant_assign T val h this =
     (let this1 = this\<lparr>Variant_type := typeid T\<rparr> in
      case new_object h (VariantDerived_ctor T val) of
        None \<Rightarrow> (h, this1, Some bad_alloc)
      | Some (h1, basePtr) \<Rightarrow>
          (delete_object h1 (Variant_value this1), this1\<lparr>Variant_value := Some basePtr\<rparr>, None))"

text \<open>The expression \<^verbatim>\<open>variant = arg\<close>: the template argument is deduced from the argument.\<close>

definition assignment ::
    "argument \<Rightarrow> heap \<Rightarrow> Variant \<Rightarrow> heap \<times> Variant \<times> exception option" where
  "assignment arg h this =
     Variant_assign (deduced_ValueType arg) (forwarded arg) h this"

definition IsType :: "cpp_type \<Rightarrow> Variant \<Rightarrow> bool" where
  "IsType T this = (typeid T = Variant_type this)"

definition MakeVariant :: "cpp_type \<Rightarrow> cpp_value \<Rightarrow> heap \<Rightarrow> (heap \<times> Variant) result" where
  "MakeVariant T val h =
     (case new_object h (VariantDerived_ctor T val) of
        None \<Rightarrow> Throws bad_alloc
      | Some (h1, basePtr) \<Rightarrow>
          Returns (h1, \<lparr>Variant_type = typeid T, Variant_value = Some basePtr\<rparr>))"

section \<open>ISerializable (utilities)\<close>

text \<open>
  The interface \<^verbatim>\<open>ISerializable\<close> has no data members. \<open>GetRuntimeTypeName\<close> is the
  implementation of the virtual member that \<^verbatim>\<open>ISerializable\<close> itself gives, the one an
  object runs unless its class overrides it; the static member \<^verbatim>\<open>GetTypeName\<close> takes no
  object.
\<close>

datatype ISerializable = ISerializable

definition GetRuntimeTypeName :: "ISerializable \<Rightarrow> string" where
  "GetRuntimeTypeName this = ''ISerializable''"

definition GetTypeName :: string where
  "GetTypeName = ''ISerializable''"

section \<open>LinearPredictor (predictors)\<close>

text \<open>
  The members \<^verbatim>\<open>_w\<close> (a \<^verbatim>\<open>DoubleVector\<close>) and \<^verbatim>\<open>_b\<close>. A data vector is the list of
  its entries.
\<close>

record LinearPredictor =
  LinearPredictor_w :: "double list"
  LinearPredictor_b :: double

text \<open>
  Modelled from the spec: \<^verbatim>\<open>IDataVector::Dot\<close> is not among the sources. The spec names what
  \<^verbatim>\<open>Predict\<close> computes as the dot product of the weight vector with the input plus the
  bias, \<^verbatim>\<open>2.0*1.0 + -1.0*1.0 + 0.5\<close> in its scenario: the products are added up in index
  order, starting from zero. Entries are paired up to the shorter of the two vectors;
  the spec does not say what happens when the lengths differ.
\<close>

definition Dot :: "double list \<Rightarrow> double list \<Rightarrow> double" where
  "Dot dataVector other =
     foldl (\<lambda>result (x, y). double_add result (double_mul x y)) (Finite 0)
       (zip dataVector other)"

text \<open>
  Modelled from the spec: \<^verbatim>\<open>DoubleVector::Scale\<close> is not among the sources; scaling a
  vector multiplies each of its entries by the scalar.
\<close>

definition DoubleVector_Scale :: "double list \<Rightarrow> double \<Rightarrow> double list" where
  "DoubleVector_Scale v scalar = map (\<lambda>x. double_mul x scalar) v"

definition Predict :: "LinearPredictor \<Rightarrow> double list \<Rightarrow> double" where
  "Predict this dataVector =
     double_add (Dot dataVector (LinearPredictor_w this)) (LinearPredictor_b this)"

definition Scale :: "LinearPredictor \<Rightarrow> double \<Rightarrow> LinearPredictor" where
  "Scale this scalar =
     this\<lparr>LinearPredictor_w := DoubleVector_Scale (LinearPredictor_w this) scalar,
          LinearPredictor_b := double_mul (LinearPredictor_b this) scalar\<rparr>"

subsection \<open>Lowering into a model of layers\<close>

type_synonym Coordinate = "nat \<times> nat"

type_synonym CoordinateList = "Coordinate list"

datatype OperationType = add | multiply

text \<open>
  Modelled from the spec: the classes \<^verbatim>\<open>Coordinatewise\<close>, \<^verbatim>\<open>Sum\<close> and \<^verbatim>\<open>Model\<close> of the
  layers library are not among the sources. A coordinate refers to an output as
  (layer, element). An elementwise layer holds one value per input coordinate and the
  operation that combines them, and has as many outputs as inputs; a sum layer reduces
  its inputs to one output. The model owns its layers in the order of their addition.
  The spec's scenario wires two input coordinates into an empty model, so a coordinate
  can also refer to the model's input: the input counts as layer 0, of no fixed size, and
  the layers added are numbered from 1.
\<close>

datatype Layer =
    Coordinatewise "double list" CoordinateList OperationType
  | Sum CoordinateList

record Model =
  Model_layers :: "Layer list"

definition NumLayers :: "Model \<Rightarrow> nat" where
  "NumLayers model = length (Model_layers model) + 1"

fun GetOutputDimension :: "Layer \<Rightarrow> nat" where
  "GetOutputDimension (Coordinatewise values inputCoordinates operationType) =
     length inputCoordinates"
| "GetOutputDimension (Sum inputCoordinates) = 1"

fun GetInputCoordinates :: "Layer \<Rightarrow> CoordinateList" where
  "GetInputCoordinates (Coordinatewise values inputCoordinates operationType) =
     inputCoordinates"
| "GetInputCoordinates (Sum inputCoordinates) = inputCoordinates"

text \<open>
  Modelled from the spec: a coordinate must resolve to something present in the model
  when the layer that refers to it is added, the model's input or an output of a layer
  added before; a dangling coordinate is a construction-time error.
\<close>

definition IsPresent :: "Model \<Rightarrow> Coordinate \<Rightarrow> bool" where
  "IsPresent model c =
     (case c of (layerIndex, elementIndex) \<Rightarrow>
        layerIndex = 0 \<or>
        (layerIndex < NumLayers model \<and>
         elementIndex < GetOutputDimension (Model_layers model ! (layerIndex - 1))))"

datatype lowering_error = DanglingCoordinate Coordinate | EmptyCoordinateList

text \<open>
  Modelled from the spec: \<^verbatim>\<open>Model::AddLayer\<close> rejects a layer with a dangling input
  coordinate (the first one is reported) and leaves the model as it was; otherwise it
  appends the layer and returns the coordinates of its outputs.
\<close>

definition AddLayer :: "Model \<Rightarrow> Layer \<Rightarrow> lowering_error + Model \<times> CoordinateList" where
  "AddLayer model layer =
     (case find (\<lambda>c. \<not> IsPresent model c) (GetInputCoordinates layer) of
        Some c \<Rightarrow> Inl (DanglingCoordinate c)
      | None \<Rightarrow>
          (let layerIndex = NumLayers model
           in Inr (model\<lparr>Model_layers := Model_layers model @ [layer]\<rparr>,
                   map (Pair layerIndex) [0..<GetOutputDimension layer])))"

text \<open>
  \<^verbatim>\<open>LinearPredictor::AddToModel\<close>. An error of \<^verbatim>\<open>AddLayer\<close> leaves the function at once.
  Indexing the sum layer's coordinate list at 0 has no defined behaviour when the list is
  empty (\<open>EmptyCoordinateList\<close>).
\<close>

definition AddToModel ::
    "LinearPredictor \<Rightarrow> Model \<Rightarrow> CoordinateList \<Rightarrow> lowering_error + Model \<times> CoordinateList" where
  "AddToModel this model inputCoordinates =
     (case AddLayer model (Coordinatewise (LinearPredictor_w this) inputCoordinates multiply) of
        Inl e \<Rightarrow> Inl e
      | Inr (model1, weightsLayerCoordinates) \<Rightarrow>
     (case AddLayer model1 (Sum weightsLayerCoordinates) of
        Inl e \<Rightarrow> Inl e
      | Inr (model2, sumLayerCoordinates) \<Rightarrow>
     (case sumLayerCoordinates of
        [] \<Rightarrow> Inl EmptyCoordinateList
      | c # rest \<Rightarrow> AddLayer model2 (Coordinatewise [LinearPredictor_b this] [c] add))))"

section \<open>The forest trainer's driver (main)\<close>

text \<open>
  The collaborators \<^verbatim>\<open>main\<close> calls are not part of it; one run fixes what each of their
  calls does (it returns, or it throws an exception) and the values \<^verbatim>\<open>main\<close> branches on
  or prints.
\<close>

datatype call =
    Parse | LoadMap | AddInputNode | GetMappedDataset | GetOutputSize | MakeForestTrainer
  | MakeEvaluator | MakeEvaluatingIncrementalTrainer | MakeMultiEpochIncrementalTrainer
  | GetRandomEngine | RandomPermute | Update | GetPredictor | Print | GetModel
  | AddPredictorNode | SaveModel

record run =
  throws :: "call \<Rightarrow> exception option"
  verbose :: bool
  GetCurrentValuesString :: string
  HasInputFile :: bool
  parsedDataDimension :: "64 word"
  NumTrees :: nat
  evaluator_Print :: string
  outputModelFilename :: string

datatype stream = cout | cerr

text \<open>What is written, in order: one entry for each output statement, line ends left out.\<close>

type_synonym transcript = "(stream \<times> string) list"

datatype statement = Call call | Write stream string | Throw exception

fun exec ::
    "(call \<Rightarrow> exception option) \<Rightarrow> statement list \<Rightarrow> transcript \<Rightarrow> transcript \<times> exception option" where
  "exec env [] out = (out, None)"
| "exec env (Call c # rest) out =
     (case env c of Some e \<Rightarrow> (out, Some e) | None \<Rightarrow> exec env rest out)"
| "exec env (Write s text # rest) out = exec env rest (out @ [(s, text)])"
| "exec env (Throw e # rest) out = (out, Some e)"

fun to_string :: "nat \<Rightarrow> string" where
  "to_string n =
     (if n < 10 then [char_of (48 + n)]
      else to_string (n div 10) @ [char_of (48 + n mod 10)])"

text \<open>The statements of the \<^verbatim>\<open>try\<close> block, in the source's order.\<close>

definition try_block :: "run \<Rightarrow> transcript \<times> exception option" where
  "try_block r =
     exec (throws r)
       ([Call Parse] @
        (if verbose r
         then [Write cout ''Sorting Tree Trainer'', Write cout (GetCurrentValuesString r)]
         else []) @
        [Call LoadMap] @
        (if verbose r then [Write cout ''Loading data ...''] else []) @
        (if \<not> HasInputFile r
         then (if parsedDataDimension r = 0
               then [Throw (InputException invalidArgument
                 ''Error, must specify a data dimension if not specifying an input map'')]
               else []) @
              [Call AddInputNode]
         else []) @
        [Call GetMappedDataset, Call GetOutputSize, Call MakeForestTrainer] @
        (if verbose r then [Call MakeEvaluator, Call MakeEvaluatingIncrementalTrainer] else []) @
        [Call MakeMultiEpochIncrementalTrainer, Call GetRandomEngine, Call RandomPermute] @
        (if verbose r then [Write cout ''Training ...''] else []) @
        [Call Update, Call GetPredictor] @
        (if verbose r
         then [Write cout (''Finished training forest with '' @ to_string (NumTrees r) @ '' trees.''),
               Write cout ''Training error'', Call Print, Write cout (evaluator_Print r)]
         else []) @
        (if outputModelFilename r \<noteq> []
         then [Call GetModel, Call AddPredictorNode, Call SaveModel]
         else []))
       []"

text \<open>
  Whether a handler for \<^verbatim>\<open>const utilities::Exception&\<close> matches. The two exceptions of
  the command line parser are matched by the handlers before it.
\<close>

fun is_utilities_Exception :: "exception \<Rightarrow> bool" where
  "is_utilities_Exception (Exception message) = True"
| "is_utilities_Exception (InputException code message) = True"
| "is_utilities_Exception e = False"

fun GetMessage :: "exception \<Rightarrow> string" where
  "GetMessage (Exception message) = message"
| "GetMessage (InputException code message) = message"
| "GetMessage e = []"

text \<open>
  How \<^verbatim>\<open>main\<close> ends: it returns an exit status, or \<^verbatim>\<open>std::terminate\<close> is called for an
  exception that no handler matches.
\<close>

datatype status = Return int | Terminate

definition main :: "run \<Rightarrow> transcript \<times> status" where
  "main r =
     (case try_block r of
        (out, None) \<Rightarrow> (out, Return 0)
      | (out, Some (CommandLineParserPrintHelpException helpText)) \<Rightarrow>
          (out @ [(cout, helpText)], Return 0)
      | (out, Some (CommandLineParserErrorException errors)) \<Rightarrow>
          (out @ (cerr, ''Command line parse error:'') # map (Pair cerr) errors, Return 1)
      | (out, Some e) \<Rightarrow>
          (if is_utilities_Exception e
           then (out @ [(cerr, ''exception: '' @ GetMessage e)], Return 1)
           else (out, Terminate)))"

section \<open>Theorems\<close>

subsection \<open>The free store\<close>

lemma find_free_Some: "find_free h = Some a \<Longrightarrow> a < length h \<and> h ! a = None"
proof (induction h arbitrary: a rule: find_free.induct)
  case 1
  then show ?case by simp
next
  case (2 h)
  then show ?case by simp
next
  case (3 obj h)
  then show ?case by auto
qed

lemma find_free_None: "find_free h = None \<longleftrightarrow> None \<notin> set h"
  by (induction h rule: find_free.induct) auto

lemma deref_update_other: "b \<noteq> a \<Longrightarrow> deref (h[a := x]) b = deref h b"
  by (simp add: deref_def)

lemma deref_update_same: "a < length h \<Longrightarrow> deref (h[a := x]) a = x"
  by (simp add: deref_def)

lemma deref_delete_other: "p \<noteq> Some b \<Longrightarrow> deref (delete_object h p) b = deref h b"
  by (cases p) (simp_all add: delete_object_def deref_update_other)

lemma deref_delete_same: "deref (delete_object h (Some a)) a = None"
  by (simp add: delete_object_def deref_def)

text \<open>
  \<^verbatim>\<open>new\<close> either finds the store full, or takes a cell that was free and leaves every
  other cell as it was.
\<close>

lemma new_object_cases:
  obtains (full) "None \<notin> set h" "new_object h obj = None"
  | (fresh) a where "a < length h" "deref h a = None"
      "new_object h obj = Some (h[a := Some obj], a)"
proof (cases "find_free h")
  case None
  then have "None \<notin> set h" by (simp add: find_free_None)
  moreover have "new_object h obj = None" using None by (simp add: new_object_def)
  ultimately show ?thesis by (rule full)
next
  case (Some a)
  then show ?thesis using fresh [of a] find_free_Some [OF Some]
    by (simp add: new_object_def deref_def)
qed

subsection \<open>Variant\<close>

text \<open>
  C1. For every value v of type T, in a store with room for the held object,
  MakeVariant<T>(v) returns a Variant whose recorded type index is that of T, and
  GetValue<T>() on it returns v.
\<close>

theorem MakeVariant_GetValue:
  assumes "type_of v = T" and "None \<in> set h"
  shows "\<exists>h1 var. MakeVariant T v h = Returns (h1, var) \<and> Variant_type var = typeid T \<and>
           Variant_GetValue T h1 var = Returns v"
proof (cases h "VariantDerived_ctor T v" rule: new_object_cases)
  case full
  then show ?thesis using assms(2) by simp
next
  case (fresh a)
  then have "deref (h[a := Some (VariantDerived_ctor T v)]) a = Some (VariantDerived_ctor T v)"
    by (simp add: deref_update_same)
  then show ?thesis
    using fresh by (simp add: MakeVariant_def Variant_GetValue_def VariantBase_GetValue_def
        VariantDerived_GetValue_def VariantDerived_ctor_def)
qed

theorem MakeVariant_GetValue_witness:
  "type_of (V_int 7) = T_int \<and> None \<in> set [None] \<and>
   (\<exists>h1 var. MakeVariant T_int (V_int 7) [None] = Returns (h1, var) \<and>
      Variant_type var = typeid T_int \<and>
      Variant_GetValue T_int h1 var = Returns (V_int 7))"
  using MakeVariant_GetValue [of "V_int 7" T_int "[None]"] by simp

text \<open>
  Retrieval under a type whose type index is not the recorded one always leaves by
  \<^verbatim>\<open>std::runtime_error\<close>: the test in \<^verbatim>\<open>Variant::GetValue\<close> comes before the call of
  \<^verbatim>\<open>VariantBase::GetValue\<close>, which is the one that throws the type-mismatch error.
\<close>

lemma Variant_GetValue_wrong_type:
  "typeid U \<noteq> Variant_type var \<Longrightarrow>
   Variant_GetValue U h var = Throws (runtime_error ''Bad variant access'')"
  by (simp add: Variant_GetValue_def)

lemma typeid_object_type: "\<not> is_reference T \<Longrightarrow> typeid T = TypeIndex T"
  by (cases T) simp_all

lemma typeid_deduced: "typeid (deduced_ValueType arg) = typeid (argument_type arg)"
  by (cases arg) simp_all

text \<open>
  C2. GetValue<U>() on MakeVariant<T>(v) with U distinct from T fails with the
  type-mismatch error kind. The code does not do so: for the Variant made from the int 7,
  GetValue<double>() leaves by std::runtime_error("Bad variant access").
\<close>

theorem GetValue_wrong_type_is_runtime_error:
  "MakeVariant T_int (V_int 7) [None] =
     Returns ([Some (VariantDerived_ctor T_int (V_int 7))],
              \<lparr>Variant_type = typeid T_int, Variant_value = Some 0\<rparr>) \<and>
   Variant_GetValue T_double [Some (VariantDerived_ctor T_int (V_int 7))]
     \<lparr>Variant_type = typeid T_int, Variant_value = Some 0\<rparr> =
     Throws (runtime_error ''Bad variant access'')"
  by (simp add: MakeVariant_def new_object_def Variant_GetValue_def)

text \<open>
  C3, as the code has it. For a Variant holding a value of type T and a new value w of
  type U, rvalue or lvalue, in a store with room for the new object, the assignment
  variant = w returns with the type index replaced by that of U and the held object
  replaced by a newly allocated one, and with the object held before released; for an
  rvalue w the new object is a VariantDerived<U> that owns a copy of w. Afterwards
  IsType<U>() is true and, for T distinct from U, GetValue<T>() fails.
\<close>

theorem Variant_assign_replaces:
  assumes "Variant_type var = typeid T" and "Variant_value var = Some old"
    and "deref h old = Some (VariantDerived_ctor T v)"
    and "\<not> is_reference T"
    and "argument_type arg = U" and "\<not> is_reference U"
    and "None \<in> set h"
  shows "\<exists>h1 a. assignment arg h var =
             (h1, \<lparr>Variant_type = typeid U, Variant_value = Some a\<rparr>, None) \<and>
           a \<noteq> old \<and> deref h1 a \<noteq> None \<and>
           (\<forall>w. arg = Rvalue w \<longrightarrow> deref h1 a = Some (VariantDerived_ctor U w)) \<and>
           deref h1 old = None \<and>
           IsType U \<lparr>Variant_type = typeid U, Variant_value = Some a\<rparr> \<and>
           (T \<noteq> U \<longrightarrow>
              Variant_GetValue T h1 \<lparr>Variant_type = typeid U, Variant_value = Some a\<rparr> =
                Throws (runtime_error ''Bad variant access''))"
proof (cases h "VariantDerived_ctor (deduced_ValueType arg) (forwarded arg)"
    rule: new_object_cases)
  case full
  then show ?thesis using assms(7) by simp
next
  case (fresh a)
  let ?obj = "VariantDerived_ctor (deduced_ValueType arg) (forwarded arg)"
  let ?h1 = "delete_object (h[a := Some ?obj]) (Some old)"
  let ?var1 = "\<lparr>Variant_type = typeid U, Variant_value = Some a\<rparr>"
  have neq: "a \<noteq> old" using fresh assms(3) by auto
  have ti: "typeid (deduced_ValueType arg) = typeid U"
    using assms(5) by (simp add: typeid_deduced)
  have "var\<lparr>Variant_type := typeid U, Variant_value := Some a\<rparr> = ?var1"
    by (cases var) simp
  then have call: "assignment arg h var = (?h1, ?var1, None)"
    using fresh assms(2) by (simp add: assignment_def Variant_assign_def ti)
  have new: "deref ?h1 a = Some ?obj"
    using neq fresh by (simp add: deref_delete_other deref_update_same)
  then have live: "deref ?h1 a \<noteq> None" by simp
  have rvalue: "deref ?h1 a = Some (VariantDerived_ctor U w)" if "arg = Rvalue w" for w
    using new that assms(5) by simp
  have released: "deref ?h1 old = None" by (rule deref_delete_same)
  have "IsType U ?var1" by (simp add: IsType_def)
  moreover have "Variant_GetValue T ?h1 ?var1 = Throws (runtime_error ''Bad variant access'')"
    if "T \<noteq> U"
  proof -
    have "typeid T \<noteq> typeid U"
      using that assms(4,6) by (simp add: typeid_object_type)
    then show ?thesis by (simp add: Variant_GetValue_wrong_type)
  qed
  ultimately show ?thesis using call live neq rvalue released by blast
qed

theorem Variant_assign_replaces_witness:
  "Variant_type \<lparr>Variant_type = typeid T_int, Variant_value = Some 0\<rparr> = typeid T_int \<and>
   deref [Some (VariantDerived_ctor T_int (V_int 7)), None] 0 =
     Some (VariantDerived_ctor T_int (V_int 7)) \<and>
   \<not> is_reference T_int \<and>
   argument_type (Rvalue (V_double (Finite (5 / 2)))) = T_double \<and>
   \<not> is_reference T_double \<and>
   None \<in> set [Some (VariantDerived_ctor T_int (V_int 7)), None] \<and>
   T_int \<noteq> T_double \<and>
   (\<exists>h1 a. assignment (Rvalue (V_double (Finite (5 / 2))))
        [Some (VariantDerived_ctor T_int (V_int 7)), None]
        \<lparr>Variant_type = typeid T_int, Variant_value = Some 0\<rparr> =
        (h1, \<lparr>Variant_type = typeid T_double, Variant_value = Some a\<rparr>, None) \<and>
      deref h1 a = Some (VariantDerived_ctor T_double (V_double (Finite (5 / 2)))) \<and>
      deref h1 0 = None \<and>
      IsType T_double \<lparr>Variant_type = typeid T_double, Variant_value = Some a\<rparr> \<and>
      Variant_GetValue T_int h1 \<lparr>Variant_type = typeid T_double, Variant_value = Some a\<rparr> =
        Throws (runtime_error ''Bad variant access''))"
proof -
  have d: "deref [Some (VariantDerived_ctor T_int (V_int 7)), None] 0 =
     Some (VariantDerived_ctor T_int (V_int 7))"
    by (simp add: deref_def)
  have n: "T_int \<noteq> T_double" by simp
  from Variant_assign_replaces
    [of "\<lparr>Variant_type = typeid T_int, Variant_value = Some 0\<rparr>" T_int 0
      "[Some (VariantDerived_ctor T_int (V_int 7)), None]" "V_int 7"
      "Rvalue (V_double (Finite (5 / 2)))" T_double] d n
  obtain h1 a where
    "assignment (Rvalue (V_double (Finite (5 / 2))))
        [Some (VariantDerived_ctor T_int (V_int 7)), None]
        \<lparr>Variant_type = typeid T_int, Variant_value = Some 0\<rparr> =
        (h1, \<lparr>Variant_type = typeid T_double, Variant_value = Some a\<rparr>, None)"
    "deref h1 a = Some (VariantDerived_ctor T_double (V_double (Finite (5 / 2))))"
    "deref h1 0 = None"
    "IsType T_double \<lparr>Variant_type = typeid T_double, Variant_value = Some a\<rparr>"
    "Variant_GetValue T_int h1 \<lparr>Variant_type = typeid T_double, Variant_value = Some a\<rparr> =
        Throws (runtime_error ''Bad variant access'')"
    by auto
  with d n show ?thesis by auto
qed

text \<open>
  For an lvalue the template argument deduced is a reference type: the type index
  recorded is still that of the variable's type, the held object is a
  \<^verbatim>\<open>VariantDerived<U&>\<close> bound to the caller's variable, and \<^verbatim>\<open>GetValue<U>()\<close> passes the
  test of the type index and fails the \<^verbatim>\<open>dynamic_cast\<close>.
\<close>

lemma assignment_lvalue:
  "assignment (Lvalue 5 (V_int 3)) [None]
       \<lparr>Variant_type = typeid T_string, Variant_value = None\<rparr> =
     ([Some (VariantDerived_ctor (T_lvalue_reference T_int) (V_reference T_int 5))],
      \<lparr>Variant_type = typeid T_int, Variant_value = Some 0\<rparr>, None) \<and>
   IsType T_int \<lparr>Variant_type = typeid T_int, Variant_value = Some 0\<rparr> \<and>
   Variant_GetValue T_int
       [Some (VariantDerived_ctor (T_lvalue_reference T_int) (V_reference T_int 5))]
       \<lparr>Variant_type = typeid T_int, Variant_value = Some 0\<rparr> =
     Throws (InputException typeMismatch ''Variant::GetValue called with wrong type.'')"
  by (simp add: assignment_def Variant_assign_def new_object_def delete_object_def IsType_def
      deref_def Variant_GetValue_def VariantBase_GetValue_def VariantDerived_ctor_def)

lemma Variant_assign_preserves:
  assumes "deref h c = Some obj" and "Variant_value var \<noteq> Some c"
  shows "deref (fst (Variant_assign U w h var)) c = Some obj"
proof (cases h "VariantDerived_ctor U w" rule: new_object_cases)
  case full
  then show ?thesis using assms by (simp add: Variant_assign_def)
next
  case (fresh a)
  with assms have "c \<noteq> a" by auto
  then show ?thesis using fresh assms
    by (simp add: Variant_assign_def deref_delete_other deref_update_other)
qed

text \<open>
  C3, as stated, fails: a state with only the type index replaced is observable. The
  type index is stored before the new object is allocated. Assigning the double 2.5 to a
  Variant that holds the int 7, in a store with no free cell, leaves by std::bad_alloc
  with the type index already that of double and the int still held; IsType<double>()
  is then true and GetValue<double>() throws the type-mismatch error.
\<close>

theorem assign_bad_alloc_partial_state:
  "assignment (Rvalue (V_double (Finite (5 / 2))))
       [Some (VariantDerived_ctor T_int (V_int 7))]
       \<lparr>Variant_type = typeid T_int, Variant_value = Some 0\<rparr> =
     ([Some (VariantDerived_ctor T_int (V_int 7))],
      \<lparr>Variant_type = typeid T_double, Variant_value = Some 0\<rparr>,
      Some bad_alloc) \<and>
   IsType T_double \<lparr>Variant_type = typeid T_double, Variant_value = Some 0\<rparr> \<and>
   deref [Some (VariantDerived_ctor T_int (V_int 7))] 0 =
     Some (VariantDerived_ctor T_int (V_int 7)) \<and>
   Variant_GetValue T_double [Some (VariantDerived_ctor T_int (V_int 7))]
       \<lparr>Variant_type = typeid T_double, Variant_value = Some 0\<rparr> =
     Throws (InputException typeMismatch ''Variant::GetValue called with wrong type.'')"
  by (simp add: assignment_def Variant_assign_def new_object_def IsType_def deref_def
      Variant_GetValue_def VariantBase_GetValue_def VariantDerived_ctor_def)

text \<open>
  C4. For a Variant holding a value v of type T, in a store with room for the copy,
  Clone() on the held object returns a new object, at another address, of the same class
  and with a value equal to v; the original is unchanged. A Variant that owns the clone
  yields v, also after the original's object is destroyed and after any assignment to
  the original Variant.
\<close>

theorem Clone_independent:
  assumes "Variant_type var = typeid T" and "Variant_value var = Some this"
    and "deref h this = Some (VariantDerived_ctor T v)"
    and "None \<in> set h"
  shows "\<exists>h1 c. Clone h this = Returns (h1, c) \<and> c \<noteq> this \<and>
           deref h1 this = Some (VariantDerived_ctor T v) \<and>
           deref h1 c = Some (VariantDerived_ctor T v) \<and>
           Variant_GetValue T h1 \<lparr>Variant_type = typeid T, Variant_value = Some c\<rparr> = Returns v \<and>
           Variant_GetValue T (delete_object h1 (Variant_value var))
             \<lparr>Variant_type = typeid T, Variant_value = Some c\<rparr> = Returns v \<and>
           (\<forall>U w. Variant_GetValue T (fst (Variant_assign U w h1 var))
             \<lparr>Variant_type = typeid T, Variant_value = Some c\<rparr> = Returns v)"
proof (cases h "VariantDerived_ctor T v" rule: new_object_cases)
  case full
  then show ?thesis using assms by simp
next
  case (fresh c)
  let ?obj = "VariantDerived_ctor T v"
  let ?h1 = "h[c := Some ?obj]"
  let ?clone = "\<lparr>Variant_type = typeid T, Variant_value = Some c\<rparr>"
  have neq: "c \<noteq> this" using fresh assms(3) by auto
  have clone: "Clone h this = Returns (?h1, c)"
    using assms(3) fresh by (simp add: Clone_def VariantDerived_ctor_def)
  have c: "deref ?h1 c = Some ?obj" using fresh by (simp add: deref_update_same)
  have orig: "deref ?h1 this = Some ?obj" using neq assms(3) by (simp add: deref_update_other)
  have get: "deref h' c = Some ?obj \<Longrightarrow> Variant_GetValue T h' ?clone = Returns v" for h'
    by (simp add: Variant_GetValue_def VariantBase_GetValue_def VariantDerived_GetValue_def
        VariantDerived_ctor_def)
  have destroyed: "deref (delete_object ?h1 (Variant_value var)) c = Some ?obj"
    using neq c assms(2) by (simp add: deref_delete_other)
  have reassigned: "deref (fst (Variant_assign U w ?h1 var)) c = Some ?obj" for U w
    using Variant_assign_preserves [OF c, of var U w] neq assms(2) by simp
  show ?thesis
    using clone neq orig c get [OF c] get [OF destroyed] get [OF reassigned] by blast
qed

theorem Clone_independent_witness:
  "Variant_type \<lparr>Variant_type = typeid T_string, Variant_value = Some 0\<rparr> = typeid T_string \<and>
   deref [Some (VariantDerived_ctor T_string (V_string ''abc'')), None, None] 0 =
     Some (VariantDerived_ctor T_string (V_string ''abc'')) \<and>
   None \<in> set [Some (VariantDerived_ctor T_string (V_string ''abc'')), None, None] \<and>
   (\<exists>h1 c. Clone [Some (VariantDerived_ctor T_string (V_string ''abc'')), None, None] 0 =
        Returns (h1, c) \<and> c \<noteq> 0 \<and>
      Variant_GetValue T_string
        (fst (Variant_assign T_int (V_int 1) h1
           \<lparr>Variant_type = typeid T_string, Variant_value = Some 0\<rparr>))
        \<lparr>Variant_type = typeid T_string, Variant_value = Some c\<rparr> = Returns (V_string ''abc''))"
proof -
  have "deref [Some (VariantDerived_ctor T_string (V_string ''abc'')), None, None] 0 =
     Some (VariantDerived_ctor T_string (V_string ''abc''))"
    by (simp add: deref_def)
  then show ?thesis
    using Clone_independent [of "\<lparr>Variant_type = typeid T_string, Variant_value = Some 0\<rparr>"
        T_string 0 "[Some (VariantDerived_ctor T_string (V_string ''abc'')), None, None]"
        "V_string ''abc''"]
    by auto
qed

text \<open>
  C10. IsSerializable() is true exactly when IsPrimitiveType() is false, and an object
  holding a value of a pointer type reports both IsPointer() and IsSerializable().
\<close>

theorem classification_complementary:
  "IsSerializable this = (\<not> IsPrimitiveType this) \<and>
   (is_pointer (ValueType this) \<longrightarrow> IsPointer this \<and> IsSerializable this)"
  by (cases "ValueType this") (simp_all add: IsSerializable_def IsPrimitiveType_def IsPointer_def)

theorem classification_complementary_witness:
  "is_pointer (ValueType (VariantDerived_ctor (T_pointer T_int) (V_pointer T_int 64))) \<and>
   IsPointer (VariantDerived_ctor (T_pointer T_int) (V_pointer T_int 64)) \<and>
   IsSerializable (VariantDerived_ctor (T_pointer T_int) (V_pointer T_int 64)) \<and>
   \<not> IsPrimitiveType (VariantDerived_ctor (T_pointer T_int) (V_pointer T_int 64))"
proof -
  let ?obj = "VariantDerived_ctor (T_pointer T_int) (V_pointer T_int 64)"
  have h: "is_pointer (ValueType ?obj)" by (simp add: VariantDerived_ctor_def)
  from classification_complementary [of ?obj] h
  have "IsPointer ?obj \<and> IsSerializable ?obj \<and> \<not> IsPrimitiveType ?obj" by blast
  with h show ?thesis by blast
qed

subsection \<open>Rounding leaves small integers as they are\<close>

lemma round_to_even_of_int: "round_to_even (of_int z) = z"
  by (simp add: round_to_even_def)

lemma floor_log2_of_int:
  assumes "0 < n"
  shows "floor_log2 (of_int n) = bitlen n - 1"
proof -
  from bitlen_bounds [OF assms] have le: "2 ^ nat (bitlen n - 1) \<le> n" by simp
  have pos: "0 \<le> bitlen n - 1"
    using assms bitlen_nonneg [of n] bitlen_eq_zero_iff [of n] by linarith
  have "(2::rat) powi (bitlen n - 1) = of_int (2 ^ nat (bitlen n - 1))"
    using pos by (simp add: power_int_def)
  also have "\<dots> \<le> of_int n" using le by (simp only: of_int_le_iff)
  finally show ?thesis
    by (simp add: floor_log2_def quotient_of_int bitlen_def compute_floorlog)
qed

lemma round_double_of_int:
  assumes "\<bar>n\<bar> < 2 ^ 53"
  shows "round_double (of_int n) = Finite (of_int n)"
proof (cases "n = 0")
  case True
  then show ?thesis by (simp add: round_double_def)
next
  case False
  define a where "a = \<bar>n\<bar>"
  have a: "0 < a" "a < 2 ^ 53" using False assms by (simp_all add: a_def)
  define e where "e = bitlen a - 1"
  from bitlen_bounds [OF a(1)] have "(2::int) ^ nat e \<le> a" by (simp add: e_def)
  with a(2) have lt: "(2::int) ^ nat e < 2 ^ 53" by linarith
  have "nat e < 53"
  proof (rule ccontr)
    assume "\<not> nat e < 53"
    then have "53 \<le> nat e" by simp
    then have "(2::int) ^ 53 \<le> 2 ^ nat e" by (rule power_increasing) simp
    with lt show False by linarith
  qed
  moreover have e0: "0 \<le> e"
    using a(1) bitlen_nonneg [of a] bitlen_eq_zero_iff [of a] unfolding e_def by linarith
  ultimately have e52: "e \<le> 52" by linarith
  define k where "k = nat (52 - e)"
  have fl: "floor_log2 \<bar>of_int n\<bar> = e"
    using floor_log2_of_int [OF a(1)] by (simp add: a_def e_def)
  have "e - 52 = - int k" using e52 by (simp add: k_def)
  then have ulp: "(2::rat) powi (e - 52) = inverse (2 ^ k)"
    by (simp only: power_int_minus power_int_of_nat)
  have q: "of_int n / ((2::rat) powi (e - 52)) = of_int (n * 2 ^ k)"
    by (simp add: ulp divide_inverse)
  have m: "round_to_even (of_int n / ((2::rat) powi (e - 52))) = n * 2 ^ k"
    unfolding q by (rule round_to_even_of_int)
  have unscale: "of_int (n * 2 ^ k) * ((2::rat) powi (e - 52)) = of_int n"
    by (simp add: ulp)
  have emax: "max e (- 1022) = e" using e0 by simp
  have nz: "(of_int n :: rat) \<noteq> 0" using False by simp
  have small: "\<not> (1023 < e \<or> (e = 1023 \<and> 2 ^ 53 \<le> \<bar>n * 2 ^ k\<bar>))"
    using e52 by simp
  show ?thesis
    unfolding round_double_def Let_def fl emax m unscale
    using nz small by (simp only: if_False)
qed

lemma double_add_of_int:
  "\<bar>a + b\<bar> < 2 ^ 53 \<Longrightarrow>
   double_add (Finite (of_int a)) (Finite (of_int b)) = Finite (of_int (a + b))"
  using round_double_of_int [of "a + b"] by simp

lemma double_mul_of_int:
  "\<bar>a * b\<bar> < 2 ^ 53 \<Longrightarrow>
   double_mul (Finite (of_int a)) (Finite (of_int b)) = Finite (of_int (a * b))"
  using round_double_of_int [of "a * b"] by simp

subsection \<open>LinearPredictor on integer data\<close>

lemma foldl_of_int:
  assumes "\<bar>c\<bar> + (\<Sum>(x, y)\<leftarrow>zs. \<bar>x * y\<bar>) < 2 ^ 53"
  shows "foldl (\<lambda>result (x, y). double_add result (double_mul x y)) (Finite (of_int c))
           (map (\<lambda>(x, y). (Finite (of_int x), Finite (of_int y))) zs) =
         Finite (of_int (c + (\<Sum>(x, y)\<leftarrow>zs. x * y)))"
  using assms
proof (induction zs arbitrary: c)
  case Nil
  then show ?case by simp
next
  case (Cons z zs)
  obtain x y where z: "z = (x, y)" by (cases z)
  have nonneg: "0 \<le> (\<Sum>(x, y)\<leftarrow>zs. \<bar>x * y\<bar>)"
    by (rule sum_list_nonneg) auto
  from Cons.prems have bound: "\<bar>c\<bar> + \<bar>x * y\<bar> + (\<Sum>(x, y)\<leftarrow>zs. \<bar>x * y\<bar>) < 2 ^ 53"
    by (simp add: z)
  have xy: "\<bar>x * y\<bar> < 2 ^ 53" using bound nonneg by linarith
  have cxy: "\<bar>c + x * y\<bar> < 2 ^ 53" using bound nonneg by linarith
  have rest: "\<bar>c + x * y\<bar> + (\<Sum>(x, y)\<leftarrow>zs. \<bar>x * y\<bar>) < 2 ^ 53" using bound by linarith
  let ?f = "\<lambda>result (x, y). double_add result (double_mul x y)"
  let ?g = "\<lambda>(x, y). (Finite (of_int x), Finite (of_int y))"
  have step: "double_add (Finite (of_int c)) (double_mul (Finite (of_int x)) (Finite (of_int y))) =
      Finite (of_int (c + x * y))"
    by (simp only: double_mul_of_int [OF xy] double_add_of_int [OF cxy])
  have "foldl ?f (Finite (of_int c)) (map ?g (z # zs)) =
      foldl ?f (Finite (of_int (c + x * y))) (map ?g zs)"
    using step by (simp only: z list.map foldl_Cons prod.case)
  also have "\<dots> = Finite (of_int (c + x * y + (\<Sum>(x, y)\<leftarrow>zs. x * y)))"
    by (rule Cons.IH [OF rest])
  also have "c + x * y + (\<Sum>(x, y)\<leftarrow>zs. x * y) = c + (\<Sum>(x, y)\<leftarrow>z # zs. x * y)"
    by (simp add: z)
  finally show ?case .
qed

lemma Dot_of_int:
  assumes "(\<Sum>(x, y)\<leftarrow>zip xs ws. \<bar>x * y\<bar>) < 2 ^ 53"
  shows "Dot (map (\<lambda>i. Finite (of_int i)) xs) (map (\<lambda>i. Finite (of_int i)) ws) =
         Finite (of_int (\<Sum>(x, y)\<leftarrow>zip xs ws. x * y))"
proof -
  have "zip (map (\<lambda>i. Finite (of_int i)) xs) (map (\<lambda>i. Finite (of_int i)) ws) =
        map (\<lambda>(x, y). (Finite (of_int x), Finite (of_int y))) (zip xs ws)"
    by (simp add: zip_map_map)
  then show ?thesis
    using foldl_of_int [of 0 "zip xs ws"] assms by (simp add: Dot_def)
qed

lemma sum_list_abs_pairs:
  "\<bar>\<Sum>(x, y)\<leftarrow>zs. x * y\<bar> \<le> (\<Sum>(x, y)\<leftarrow>zs. \<bar>x * y\<bar>)" for zs :: "(int \<times> int) list"
  by (induction zs) auto

lemma sum_list_scaled_pairs:
  "(\<Sum>(x, y)\<leftarrow>zs. x * (y * k)) = k * (\<Sum>(x, y)\<leftarrow>zs. x * y)" for zs :: "(int \<times> int) list"
  by (induction zs) (auto simp: algebra_simps)

lemma sum_list_abs_scaled_pairs:
  "(\<Sum>(x, y)\<leftarrow>zs. \<bar>x * (y * k)\<bar>) = \<bar>k\<bar> * (\<Sum>(x, y)\<leftarrow>zs. \<bar>x * y\<bar>)"
  for zs :: "(int \<times> int) list"
  by (induction zs) (auto simp: algebra_simps abs_mult)

lemma zip_scaled:
  "zip xs (map (\<lambda>w. w * k) ws) = map (\<lambda>(x, y). (x, y * k)) (zip xs ws)"
  by (simp add: zip_map2)

lemma sum_zip_scaled:
  "(\<Sum>(x, y)\<leftarrow>zip xs (map (\<lambda>w. w * k) ws). x * y) = k * (\<Sum>(x, y)\<leftarrow>zip xs ws. x * y)"
  for xs :: "int list"
proof -
  have "(\<Sum>(x, y)\<leftarrow>zip xs (map (\<lambda>w. w * k) ws). x * y) = (\<Sum>(x, y)\<leftarrow>zip xs ws. x * (y * k))"
    unfolding zip_scaled by (simp add: comp_def case_prod_unfold)
  then show ?thesis by (simp only: sum_list_scaled_pairs)
qed

lemma sum_zip_abs_scaled:
  "(\<Sum>(x, y)\<leftarrow>zip xs (map (\<lambda>w. w * k) ws). \<bar>x * y\<bar>) = \<bar>k\<bar> * (\<Sum>(x, y)\<leftarrow>zip xs ws. \<bar>x * y\<bar>)"
  for xs :: "int list"
proof -
  have "(\<Sum>(x, y)\<leftarrow>zip xs (map (\<lambda>w. w * k) ws). \<bar>x * y\<bar>) =
      (\<Sum>(x, y)\<leftarrow>zip xs ws. \<bar>x * (y * k)\<bar>)"
    unfolding zip_scaled by (simp add: comp_def case_prod_unfold)
  then show ?thesis by (simp only: sum_list_abs_scaled_pairs)
qed

lemma Predict_of_int:
  assumes "(\<Sum>(x, y)\<leftarrow>zip xs ws. \<bar>x * y\<bar>) + \<bar>b\<bar> < 2 ^ 53"
  shows "Predict \<lparr>LinearPredictor_w = map exact_int ws, LinearPredictor_b = exact_int b\<rparr>
           (map exact_int xs) =
         exact_int ((\<Sum>(x, y)\<leftarrow>zip xs ws. x * y) + b)"
proof -
  let ?S = "\<Sum>(x, y)\<leftarrow>zip xs ws. x * y"
  let ?A = "\<Sum>(x, y)\<leftarrow>zip xs ws. \<bar>x * y\<bar>"
  have S: "\<bar>?S\<bar> \<le> ?A" by (rule sum_list_abs_pairs)
  have A: "?A < 2 ^ 53" using assms by linarith
  have sum: "\<bar>?S + b\<bar> < 2 ^ 53" using assms S by linarith
  have "Dot (map exact_int xs) (map exact_int ws) = Finite (of_int ?S)"
    using Dot_of_int [OF A] by (simp only: exact_int_def [abs_def])
  then show ?thesis
    using double_add_of_int [OF sum] by (simp add: Predict_def exact_int_def)
qed

text \<open>
  C5. The linear predictor with weight vector [2.0, -1.0] and bias 0.5 predicts exactly
  1.5 on the input [1.0, 1.0]; for every predictor and input, Predict returns the dot
  product of the input with the weight vector plus the bias.
\<close>

theorem Predict_scenario:
  "Predict \<lparr>LinearPredictor_w = [Finite 2, Finite (- 1)], LinearPredictor_b = Finite (1 / 2)\<rparr>
     [Finite 1, Finite 1] = Finite (3 / 2) \<and>
   Predict p x = double_add (Dot x (LinearPredictor_w p)) (LinearPredictor_b p)"
proof
  show "Predict \<lparr>LinearPredictor_w = [Finite 2, Finite (- 1)], LinearPredictor_b = Finite (1 / 2)\<rparr>
     [Finite 1, Finite 1] = Finite (3 / 2)"
    by code_simp
  show "Predict p x = double_add (Dot x (LinearPredictor_w p)) (LinearPredictor_b p)"
    by (simp add: Predict_def)
qed

lemma find_absent_None: "list_all (IsPresent model) cs \<Longrightarrow> find (\<lambda>c. \<not> IsPresent model c) cs = None"
  by (induction cs) simp_all

lemma AddLayer_present:
  "list_all (IsPresent model) (GetInputCoordinates layer) \<Longrightarrow>
   AddLayer model layer =
     Inr (model\<lparr>Model_layers := Model_layers model @ [layer]\<rparr>,
          map (Pair (NumLayers model)) [0..<GetOutputDimension layer])"
  by (simp add: AddLayer_def find_absent_None)

lemma IsPresent_last:
  "e < GetOutputDimension layer \<Longrightarrow>
   IsPresent (model\<lparr>Model_layers := Model_layers model @ [layer]\<rparr>) (NumLayers model, e)"
  by (simp add: IsPresent_def NumLayers_def)

text \<open>
  On any model, with input coordinates that are all present, the three layers are
  appended and the coordinate of the last one is returned.
\<close>

lemma AddToModel_appends:
  assumes "list_all (IsPresent model) inputCoordinates"
  shows "AddToModel p model inputCoordinates =
     Inr
       (model\<lparr>Model_layers := Model_layers model @
          [Coordinatewise (LinearPredictor_w p) inputCoordinates multiply,
           Sum (map (Pair (NumLayers model)) [0..<length inputCoordinates]),
           Coordinatewise [LinearPredictor_b p] [(NumLayers model + 1, 0)] add]\<rparr>,
        [(NumLayers model + 2, 0)])"
proof -
  let ?l1 = "Coordinatewise (LinearPredictor_w p) inputCoordinates multiply"
  let ?m1 = "model\<lparr>Model_layers := Model_layers model @ [?l1]\<rparr>"
  let ?cs1 = "map (Pair (NumLayers model)) [0..<length inputCoordinates]"
  let ?l2 = "Sum ?cs1"
  let ?m2 = "?m1\<lparr>Model_layers := Model_layers ?m1 @ [?l2]\<rparr>"
  let ?l3 = "Coordinatewise [LinearPredictor_b p] [(NumLayers ?m1, 0)] add"
  have a1: "AddLayer model ?l1 = Inr (?m1, ?cs1)"
    using assms by (simp add: AddLayer_present)
  have "list_all (IsPresent ?m1) ?cs1"
    by (simp add: list_all_iff IsPresent_def NumLayers_def)
  then have a2: "AddLayer ?m1 ?l2 = Inr (?m2, [(NumLayers ?m1, 0)])"
    by (simp add: AddLayer_present)
  have "IsPresent ?m2 (NumLayers ?m1, 0)"
    by (rule IsPresent_last) simp
  then have a3: "AddLayer ?m2 ?l3 =
      Inr (?m2\<lparr>Model_layers := Model_layers ?m2 @ [?l3]\<rparr>, [(NumLayers ?m2, 0)])"
    by (simp add: AddLayer_present)
  have "AddToModel p model inputCoordinates = AddLayer ?m2 ?l3"
    by (simp only: AddToModel_def a1 a2 sum.case prod.case list.case)
  also note a3
  also have "Inr (?m2\<lparr>Model_layers := Model_layers ?m2 @ [?l3]\<rparr>, [(NumLayers ?m2, 0)]) =
      Inr
       (model\<lparr>Model_layers := Model_layers model @
          [Coordinatewise (LinearPredictor_w p) inputCoordinates multiply,
           Sum (map (Pair (NumLayers model)) [0..<length inputCoordinates]),
           Coordinatewise [LinearPredictor_b p] [(NumLayers model + 1, 0)] add]\<rparr>,
        [(NumLayers model + 2, 0)])"
    by (simp add: NumLayers_def)
  finally show ?thesis .
qed

text \<open>A dangling input coordinate is rejected and nothing is added.\<close>

lemma AddToModel_dangling:
  "AddToModel p \<lparr>Model_layers = []\<rparr> [(1, 0), (7, 3)] = Inl (DanglingCoordinate (1, 0))"
  by (simp add: AddToModel_def AddLayer_def IsPresent_def NumLayers_def)

text \<open>
  C6. For every linear predictor, AddToModel on an empty model with two input
  coordinates, both present in it, returns and leaves exactly three layers in the model:
  the elementwise multiplication of the two inputs by the weights, the sum of that
  layer's two outputs, and the elementwise addition of the bias to the sum's output. It
  returns the coordinate list of the last layer.
\<close>

theorem AddToModel_empty_model:
  assumes "IsPresent \<lparr>Model_layers = []\<rparr> c1" and "IsPresent \<lparr>Model_layers = []\<rparr> c2"
  shows "AddToModel p \<lparr>Model_layers = []\<rparr> [c1, c2] =
     Inr
       (\<lparr>Model_layers =
           [Coordinatewise (LinearPredictor_w p) [c1, c2] multiply,
            Sum [(1, 0), (1, 1)],
            Coordinatewise [LinearPredictor_b p] [(2, 0)] add]\<rparr>,
        [(3, 0)])"
proof -
  have "list_all (IsPresent \<lparr>Model_layers = []\<rparr>) [c1, c2]" using assms by simp
  from AddToModel_appends [OF this, of p] show ?thesis
    by (simp add: NumLayers_def upt_rec)
qed

theorem AddToModel_empty_model_witness:
  "IsPresent \<lparr>Model_layers = []\<rparr> (0, 0) \<and> IsPresent \<lparr>Model_layers = []\<rparr> (0, 1) \<and>
   AddToModel \<lparr>LinearPredictor_w = [Finite 2, Finite (- 1)], LinearPredictor_b = Finite (1 / 2)\<rparr>
       \<lparr>Model_layers = []\<rparr> [(0, 0), (0, 1)] =
     Inr
       (\<lparr>Model_layers =
           [Coordinatewise [Finite 2, Finite (- 1)] [(0, 0), (0, 1)] multiply,
            Sum [(1, 0), (1, 1)],
            Coordinatewise [Finite (1 / 2)] [(2, 0)] add]\<rparr>,
        [(3, 0)])"
proof -
  have h1: "IsPresent \<lparr>Model_layers = []\<rparr> (0, 0)" by (simp add: IsPresent_def)
  have h2: "IsPresent \<lparr>Model_layers = []\<rparr> (0, 1)" by (simp add: IsPresent_def)
  from AddToModel_empty_model [OF h1 h2,
      of "\<lparr>LinearPredictor_w = [Finite 2, Finite (- 1)], LinearPredictor_b = Finite (1 / 2)\<rparr>"]
    h1 h2
  show ?thesis by simp
qed

text \<open>
  C9, as the code has it. Scale(s) multiplies every weight and the bias by s in double
  arithmetic. When s, the weights, the bias and the entries of x are integers such that
  every product of a weight with s, the sum of the magnitudes of the products of weights
  with entries plus the magnitude of the bias, and that sum times the magnitude of s all
  stay below 2 to the power 53, no operation rounds, and after Scale(s) Predict(x) is s
  times what it was before.
\<close>

theorem Scale_Predict_integers:
  fixes ws xs :: "int list" and b k :: int
  defines "p \<equiv> \<lparr>LinearPredictor_w = map exact_int ws, LinearPredictor_b = exact_int b\<rparr>"
  assumes weights: "list_all (\<lambda>w. \<bar>w * k\<bar> < 2 ^ 53) ws"
    and before: "(\<Sum>(x, w)\<leftarrow>zip xs ws. \<bar>x * w\<bar>) + \<bar>b\<bar> < 2 ^ 53"
    and after: "\<bar>k\<bar> * ((\<Sum>(x, w)\<leftarrow>zip xs ws. \<bar>x * w\<bar>) + \<bar>b\<bar>) < 2 ^ 53"
  shows "LinearPredictor_w (Scale q s) = map (\<lambda>w. double_mul w s) (LinearPredictor_w q) \<and>
         LinearPredictor_b (Scale q s) = double_mul (LinearPredictor_b q) s \<and>
         Predict (Scale p (exact_int k)) (map exact_int xs) =
           double_mul (exact_int k) (Predict p (map exact_int xs))"
proof -
  let ?S = "\<Sum>(x, y)\<leftarrow>zip xs ws. x * y"
  let ?A = "\<Sum>(x, y)\<leftarrow>zip xs ws. \<bar>x * y\<bar>"
  have A0: "0 \<le> ?A" by (rule sum_list_nonneg) auto
  have S: "\<bar>?S\<bar> \<le> ?A" by (rule sum_list_abs_pairs)
  have "\<bar>?S + b\<bar> \<le> ?A + \<bar>b\<bar>" using S by linarith
  then have "\<bar>k\<bar> * \<bar>?S + b\<bar> \<le> \<bar>k\<bar> * (?A + \<bar>b\<bar>)" by (rule mult_left_mono) simp
  then have kS: "\<bar>k * (?S + b)\<bar> \<le> \<bar>k\<bar> * (?A + \<bar>b\<bar>)" by (simp only: abs_mult)
  have total: "\<bar>k * (?S + b)\<bar> < 2 ^ 53" using kS after by linarith
  have bk: "\<bar>b * k\<bar> < 2 ^ 53"
  proof -
    have "\<bar>b * k\<bar> = \<bar>k\<bar> * \<bar>b\<bar>" by (simp add: abs_mult)
    also have "\<dots> \<le> \<bar>k\<bar> * (?A + \<bar>b\<bar>)" using A0 by (intro mult_left_mono) auto
    finally show ?thesis using after by linarith
  qed
  have scaled: "(\<Sum>(x, y)\<leftarrow>zip xs (map (\<lambda>w. w * k) ws). \<bar>x * y\<bar>) + \<bar>b * k\<bar> < 2 ^ 53"
  proof -
    have "\<bar>b * k\<bar> = \<bar>k\<bar> * \<bar>b\<bar>" by (simp add: abs_mult)
    then have "(\<Sum>(x, y)\<leftarrow>zip xs (map (\<lambda>w. w * k) ws). \<bar>x * y\<bar>) + \<bar>b * k\<bar> =
        \<bar>k\<bar> * (?A + \<bar>b\<bar>)"
      by (simp only: sum_zip_abs_scaled distrib_left)
    then show ?thesis using after by (simp only:)
  qed
  have w': "map (\<lambda>w. double_mul w (exact_int k)) (map exact_int ws) =
      map exact_int (map (\<lambda>w. w * k) ws)"
    using weights
    by (simp add: exact_int_def double_mul_of_int list_all_iff del: double_mul.simps)
  have b': "double_mul (exact_int b) (exact_int k) = exact_int (b * k)"
    unfolding exact_int_def by (rule double_mul_of_int [OF bk])
  have "Scale p (exact_int k) =
      \<lparr>LinearPredictor_w = map exact_int (map (\<lambda>w. w * k) ws), LinearPredictor_b = exact_int (b * k)\<rparr>"
    by (simp add: Scale_def DoubleVector_Scale_def p_def w' b' del: map_map)
  then have lhs: "Predict (Scale p (exact_int k)) (map exact_int xs) =
      exact_int ((\<Sum>(x, y)\<leftarrow>zip xs (map (\<lambda>w. w * k) ws). x * y) + b * k)"
    using Predict_of_int [OF scaled] by simp
  have "(\<Sum>(x, y)\<leftarrow>zip xs (map (\<lambda>w. w * k) ws). x * y) + b * k = k * (?S + b)"
    by (simp only: sum_zip_scaled distrib_left mult.commute [of b k])
  with lhs have lhs': "Predict (Scale p (exact_int k)) (map exact_int xs) = exact_int (k * (?S + b))"
    by simp
  have "Predict p (map exact_int xs) = exact_int (?S + b)"
    unfolding p_def by (rule Predict_of_int [OF before])
  then have rhs: "double_mul (exact_int k) (Predict p (map exact_int xs)) = exact_int (k * (?S + b))"
    using double_mul_of_int [OF total] by (simp only: exact_int_def)
  show ?thesis
    using lhs' rhs by (simp add: Scale_def DoubleVector_Scale_def)
qed

theorem Scale_Predict_integers_witness:
  "list_all (\<lambda>w. \<bar>w * 4\<bar> < 2 ^ 53) [2, - 1 :: int] \<and>
   (\<Sum>(x, w)\<leftarrow>zip [1, 1] [2, - 1 :: int]. \<bar>x * w\<bar>) + \<bar>3\<bar> < 2 ^ 53 \<and>
   \<bar>4\<bar> * ((\<Sum>(x, w)\<leftarrow>zip [1, 1] [2, - 1 :: int]. \<bar>x * w\<bar>) + \<bar>3\<bar>) < 2 ^ 53 \<and>
   Predict (Scale \<lparr>LinearPredictor_w = map exact_int [2, - 1], LinearPredictor_b = exact_int 3\<rparr>
       (exact_int 4)) (map exact_int [1, 1]) =
     double_mul (exact_int 4)
       (Predict \<lparr>LinearPredictor_w = map exact_int [2, - 1], LinearPredictor_b = exact_int 3\<rparr>
          (map exact_int [1, 1]))"
proof -
  have h1: "list_all (\<lambda>w. \<bar>w * 4\<bar> < 2 ^ 53) [2, - 1 :: int]" by simp
  have h2: "(\<Sum>(x, w)\<leftarrow>zip [1, 1] [2, - 1 :: int]. \<bar>x * w\<bar>) + \<bar>3\<bar> < 2 ^ 53" by simp
  have h3: "\<bar>4\<bar> * ((\<Sum>(x, w)\<leftarrow>zip [1, 1] [2, - 1 :: int]. \<bar>x * w\<bar>) + \<bar>3\<bar>) < 2 ^ 53" by simp
  from Scale_Predict_integers [OF h1 h2 h3] h1 h2 h3 show ?thesis by blast
qed

text \<open>
  C9, as stated, fails in double arithmetic. With the single weight 9007199254740992
  (2 to the power 53), bias 1, x = [1] and s = 3: the prediction before the call is
  9007199254740992 (the sum with 1 rounds to even), three times it is 27021597764222976;
  after Scale(3) the prediction is 27021597764222976 + 3 rounded, 27021597764222980.
\<close>

theorem Scale_Predict_counterexample:
  "Predict \<lparr>LinearPredictor_w = [Finite 9007199254740992], LinearPredictor_b = Finite 1\<rparr>
     [Finite 1] = Finite 9007199254740992 \<and>
   double_mul (Finite 3)
     (Predict \<lparr>LinearPredictor_w = [Finite 9007199254740992], LinearPredictor_b = Finite 1\<rparr>
        [Finite 1]) = Finite 27021597764222976 \<and>
   Predict
     (Scale \<lparr>LinearPredictor_w = [Finite 9007199254740992], LinearPredictor_b = Finite 1\<rparr>
        (Finite 3))
     [Finite 1] = Finite 27021597764222980 \<and>
   Predict
     (Scale \<lparr>LinearPredictor_w = [Finite 9007199254740992], LinearPredictor_b = Finite 1\<rparr>
        (Finite 3))
     [Finite 1] \<noteq>
   double_mul (Finite 3)
     (Predict \<lparr>LinearPredictor_w = [Finite 9007199254740992], LinearPredictor_b = Finite 1\<rparr>
        [Finite 1])"
  by code_simp

subsection \<open>The driver\<close>

text \<open>
  C8. Whatever utilities::Exception leaves the try block of main (raised while loading,
  training or saving) is caught there: main writes "exception: " and the exception's
  message to the error stream and returns 1. A help request is written to the standard
  output and main returns 0. Both messages are written by main's handlers.
\<close>

theorem main_reports_core_errors:
  "(snd (try_block r) = Some e \<and> is_utilities_Exception e \<longrightarrow>
      main r = (fst (try_block r) @ [(cerr, ''exception: '' @ GetMessage e)], Return 1)) \<and>
   (snd (try_block r) = Some (CommandLineParserPrintHelpException helpText) \<longrightarrow>
      main r = (fst (try_block r) @ [(cout, helpText)], Return 0))"
  by (cases "try_block r"; cases e) (simp_all add: main_def)

theorem main_reports_core_errors_witness:
  "snd (try_block
      \<lparr>throws = (\<lambda>c. if c = SaveModel then Some (Exception ''cannot open file'') else None),
       verbose = False, GetCurrentValuesString = [], HasInputFile = True,
       parsedDataDimension = 0, NumTrees = 3, evaluator_Print = [],
       outputModelFilename = ''model.xml''\<rparr>) = Some (Exception ''cannot open file'') \<and>
   is_utilities_Exception (Exception ''cannot open file'') \<and>
   main
      \<lparr>throws = (\<lambda>c. if c = SaveModel then Some (Exception ''cannot open file'') else None),
       verbose = False, GetCurrentValuesString = [], HasInputFile = True,
       parsedDataDimension = 0, NumTrees = 3, evaluator_Print = [],
       outputModelFilename = ''model.xml''\<rparr> =
     ([(cerr, ''exception: cannot open file'')], Return 1) \<and>
   snd (try_block
      \<lparr>throws = (\<lambda>c. if c = Parse then Some (CommandLineParserPrintHelpException ''usage'')
                      else None),
       verbose = False, GetCurrentValuesString = [], HasInputFile = True,
       parsedDataDimension = 0, NumTrees = 3, evaluator_Print = [],
       outputModelFilename = ''model.xml''\<rparr>) =
     Some (CommandLineParserPrintHelpException ''usage'') \<and>
   main
      \<lparr>throws = (\<lambda>c. if c = Parse then Some (CommandLineParserPrintHelpException ''usage'')
                      else None),
       verbose = False, GetCurrentValuesString = [], HasInputFile = True,
       parsedDataDimension = 0, NumTrees = 3, evaluator_Print = [],
       outputModelFilename = ''model.xml''\<rparr> =
     ([(cout, ''usage'')], Return 0)"
proof -
  let ?r1 = "\<lparr>throws = (\<lambda>c. if c = SaveModel then Some (Exception ''cannot open file'') else None),
       verbose = False, GetCurrentValuesString = [], HasInputFile = True,
       parsedDataDimension = 0, NumTrees = 3, evaluator_Print = [],
       outputModelFilename = ''model.xml''\<rparr>"
  let ?r2 = "\<lparr>throws = (\<lambda>c. if c = Parse then Some (CommandLineParserPrintHelpException ''usage'')
                      else None),
       verbose = False, GetCurrentValuesString = [], HasInputFile = True,
       parsedDataDimension = 0, NumTrees = 3, evaluator_Print = [],
       outputModelFilename = ''model.xml''\<rparr>"
  have t1: "try_block ?r1 = ([], Some (Exception ''cannot open file''))"
    by (simp add: try_block_def)
  have t2: "try_block ?r2 = ([], Some (CommandLineParserPrintHelpException ''usage''))"
    by (simp add: try_block_def)
  have u: "is_utilities_Exception (Exception ''cannot open file'')" by simp
  from main_reports_core_errors [of ?r1 "Exception ''cannot open file''"] t1 u
  have m1: "main ?r1 = ([(cerr, ''exception: cannot open file'')], Return 1)" by simp
  from main_reports_core_errors [of ?r2 _ "''usage''"] t2
  have m2: "main ?r2 = ([(cout, ''usage'')], Return 0)" by simp
  from t1 t2 u m1 m2 show ?thesis by simp
qed

subsection \<open>ISerializable\<close>

text \<open>
  C7. For the ISerializable kind the instance method GetRuntimeTypeName() and the static
  accessor GetTypeName() return the same string, and that string is "ISerializable".
\<close>

theorem ISerializable_type_name_agree:
  "GetRuntimeTypeName this = GetTypeName \<and> GetTypeName = ''ISerializable''"
  by (simp add: GetRuntimeTypeName_def GetTypeName_def)

end
